theory Spec2Isabelle
  imports Main
begin

text \<open>
  A model of multikubectl: the cluster manager that picks the contexts, the executor
  that runs \<open>kubectl\<close> once per context, and the merger that joins the outputs. Each
  function of the Go source is a function of the same name here; a loop of the source is
  a recursive function named after what it builds. The definitions come first, the facts
  about them after.
\<close>

section \<open>Go strings\<close>

text \<open>
  A Go string is a sequence of bytes and \<open>len\<close> counts bytes. It is modelled as a
  \<^typ>\<open>string\<close>, whose characters are the bytes. The functions of package
  \<open>strings\<close> and \<open>unicode/utf8\<close> that the program calls follow, under their Go names.
\<close>

definition newline :: char where
  "newline = CHR 0x0A"

definition nl :: string where
  "nl = [newline]"

definition byte :: "char \<Rightarrow> nat" where
  "byte c = of_char c"

fun HasPrefix :: "string \<Rightarrow> string \<Rightarrow> bool" where
  "HasPrefix s [] = True"
| "HasPrefix [] (p # ps) = False"
| "HasPrefix (c # s) (p # ps) = (c = p \<and> HasPrefix s ps)"

definition HasSuffix :: "string \<Rightarrow> string \<Rightarrow> bool" where
  "HasSuffix s suffix =
     (length s \<ge> length suffix \<and> drop (length s - length suffix) s = suffix)"

definition TrimSuffix :: "string \<Rightarrow> string \<Rightarrow> string" where
  "TrimSuffix s suffix =
     (if HasSuffix s suffix then take (length s - length suffix) s else s)"

fun Contains :: "string \<Rightarrow> string \<Rightarrow> bool" where
  "Contains [] substr = (substr = [])"
| "Contains (c # s) substr = (HasPrefix (c # s) substr \<or> Contains s substr)"

text \<open>
  \<open>strings.Split(s, sep)\<close> for a separator of one byte, the only use the program makes
  of it: the pieces between the separators, an empty piece included, so that a string
  with \<open>n\<close> separators gives \<open>n + 1\<close> pieces. \<open>cur\<close> is the piece being read.
\<close>

fun Split_from :: "char \<Rightarrow> string \<Rightarrow> string \<Rightarrow> string list" where
  "Split_from sep cur [] = [cur]"
| "Split_from sep cur (c # s) =
     (if c = sep then cur # Split_from sep [] s else Split_from sep (cur @ [c]) s)"

definition Split :: "string \<Rightarrow> char \<Rightarrow> string list" where
  "Split s sep = Split_from sep [] s"

text \<open>
  \<open>strings.ToUpper\<close> maps \<open>a\<close> to \<open>z\<close> onto \<open>A\<close> to \<open>Z\<close> when every byte of the
  string is ASCII. On any other string Go applies the case tables of Unicode, which are
  not part of this program: that mapping is the parameter \<open>unicodeUpper\<close> of the model,
  and every statement below holds for whatever it is.
\<close>

definition isASCII :: "string \<Rightarrow> bool" where
  "isASCII s = list_all (\<lambda>c. byte c < 128) s"

definition upperByte :: "char \<Rightarrow> char" where
  "upperByte c = (if 97 \<le> byte c \<and> byte c \<le> 122 then char_of (byte c - 32) else c)"

definition ToUpper :: "(string \<Rightarrow> string) \<Rightarrow> string \<Rightarrow> string" where
  "ToUpper unicodeUpper s = (if isASCII s then map upperByte s else unicodeUpper s)"

text \<open>
  \<open>utf8.RuneCountInString\<close>, which \<open>fmt\<close> uses to pad a string to a width: a
  well-formed UTF-8 sequence counts as one rune, and so does every byte that starts
  none. \<open>runeSize c s\<close> is the number of bytes of the rune that starts with byte \<open>c\<close>
  and goes on in \<open>s\<close>.
\<close>

definition continuation :: "string \<Rightarrow> nat \<Rightarrow> bool" where
  "continuation s i = (i < length s \<and> 128 \<le> byte (s ! i) \<and> byte (s ! i) \<le> 191)"

definition runeSize :: "char \<Rightarrow> string \<Rightarrow> nat" where
  "runeSize c s =
     (let b = byte c;
          size = (if 194 \<le> b \<and> b \<le> 223 then 2
                  else if 224 \<le> b \<and> b \<le> 239 then 3
                  else if 240 \<le> b \<and> b \<le> 244 then 4
                  else 1);
          lo = (if b = 224 then 160 else if b = 240 then 144 else 128);
          hi = (if b = 237 then 159 else if b = 244 then 143 else 191)
      in if size = 1 \<or> length s < size - 1 then 1
         else if byte (s ! 0) < lo \<or> hi < byte (s ! 0) then 1
         else if size = 2 then 2
         else if \<not> continuation s 1 then 1
         else if size = 3 then 3
         else if \<not> continuation s 2 then 1
         else 4)"

fun RuneCount_from :: "nat \<Rightarrow> string \<Rightarrow> nat" where
  "RuneCount_from skip [] = 0"
| "RuneCount_from (Suc skip) (c # s) = RuneCount_from skip s"
| "RuneCount_from 0 (c # s) = Suc (RuneCount_from (runeSize c s - 1) s)"

definition RuneCountInString :: "string \<Rightarrow> nat" where
  "RuneCountInString s = RuneCount_from 0 s"

section \<open>Package cluster\<close>

text \<open>
  The kubeconfig, as far as the manager reads it. A \<open>ContextEntry\<close> of the source
  nests a struct with the cluster, the user and the namespace; its fields are kept
  here side by side with the name.
\<close>

record ContextEntry =
  Name :: string
  Cluster :: string
  User :: string
  Namespace :: string

record KubeConfig =
  CurrentContext :: string
  Contexts :: "ContextEntry list"

record Manager =
  kubeConfigPath :: string
  config :: KubeConfig

text \<open>\<open>GetContexts\<close> appends the name of every context entry, in file order.\<close>

fun GetContexts_loop :: "ContextEntry list \<Rightarrow> string list \<Rightarrow> string list" where
  "GetContexts_loop [] contexts = contexts"
| "GetContexts_loop (ctx # rest) contexts = GetContexts_loop rest (contexts @ [Name ctx])"

definition GetContexts :: "Manager \<Rightarrow> string list" where
  "GetContexts m = GetContexts_loop (Contexts (config m)) []"

text \<open>
  \<open>FilterContexts\<close> first builds the Go map \<open>availableContexts\<close> (a missing key
  reads as \<open>false\<close>), then walks the requested names and appends those the map holds.
\<close>

fun available_loop :: "ContextEntry list \<Rightarrow> (string \<rightharpoonup> bool) \<Rightarrow> (string \<rightharpoonup> bool)" where
  "available_loop [] availableContexts = availableContexts"
| "available_loop (ctx # rest) availableContexts =
     available_loop rest (availableContexts(Name ctx \<mapsto> True))"

definition map_index :: "(string \<rightharpoonup> bool) \<Rightarrow> string \<Rightarrow> bool" where
  "map_index m k = (case m k of None \<Rightarrow> False | Some b \<Rightarrow> b)"

fun filtered_loop :: "(string \<rightharpoonup> bool) \<Rightarrow> string list \<Rightarrow> string list \<Rightarrow> string list" where
  "filtered_loop availableContexts [] filtered = filtered"
| "filtered_loop availableContexts (ctx # rest) filtered =
     (if map_index availableContexts ctx
      then filtered_loop availableContexts rest (filtered @ [ctx])
      else filtered_loop availableContexts rest filtered)"

definition FilterContexts :: "Manager \<Rightarrow> string list \<Rightarrow> string list" where
  "FilterContexts m contexts =
     (if length contexts = 0 then GetContexts m
      else filtered_loop (available_loop (Contexts (config m)) Map.empty) contexts [])"

section \<open>Package executor\<close>

text \<open>
  A Go \<open>error\<close> value, as far as the program can meet one: the \<open>*exec.ExitError\<close> that
  \<open>cmd.Run\<close> returns for a subprocess that was started and did not end with status
  zero (with its \<open>ExitCode()\<close>, which is \<open>-1\<close> for a subprocess ended by a signal, and its
  text), the value built by \<open>fmt.Errorf("%s", s)\<close>, and any other error, known by its
  text. \<open>error_text\<close> is the method \<open>Error()\<close>, which the verb \<open>%v\<close> prints.
\<close>

datatype go_error =
    ExitError int string
  | Errorf string
  | OtherError string

fun error_text :: "go_error \<Rightarrow> string" where
  "error_text (ExitError code text) = text"
| "error_text (Errorf s) = s"
| "error_text (OtherError text) = text"

record Result =
  Context :: string
  Output :: string
  Error :: "go_error option"
  ExitCode :: int

record Executor =
  kubeConfigPath :: string
  timeout :: int

text \<open>
  What one call of \<open>cmd.Run\<close> leaves behind: the bytes captured in the two buffers and
  the error returned.
\<close>

record Ran =
  stdout :: string
  stderr :: string
  err :: "go_error option"

text \<open>
  \<open>executeOne\<close>. The subprocess is outside the program: \<open>run\<close> stands for
  \<open>exec.CommandContext\<close> followed by \<open>cmd.Run\<close>, and gives the outcome for a timeout, a
  command name and its arguments.
\<close>

definition executeOne ::
  "Executor \<Rightarrow> (int \<Rightarrow> string \<Rightarrow> string list \<Rightarrow> Ran) \<Rightarrow> string \<Rightarrow> string list \<Rightarrow> Result" where
  "executeOne e run contextName args =
     (let cmdArgs = [''--context'', contextName];
          cmdArgs = (if Executor.kubeConfigPath e \<noteq> []
                     then [''--kubeconfig'', Executor.kubeConfigPath e] @ cmdArgs
                     else cmdArgs);
          cmdArgs = cmdArgs @ args;
          ran = run (timeout e) ''kubectl'' cmdArgs;
          result = \<lparr>Context = contextName, Output = stdout ran, Error = None, ExitCode = 0\<rparr>
      in case err ran of
           None \<Rightarrow> result
         | Some (ExitError code text) \<Rightarrow>
             result\<lparr>ExitCode := code, Error := Some (Errorf (stderr ran))\<rparr>
         | Some other \<Rightarrow> result\<lparr>Error := Some other\<rparr>)"

text \<open>
  \<open>Execute\<close> allocates one zero \<open>Result\<close> per context and starts one goroutine per
  index; the goroutine of index \<open>i\<close> stores \<open>executeOne\<close> of the \<open>i\<close>-th context at
  position \<open>i\<close>, and \<open>wg.Wait\<close> returns when all have done so. The order in which the
  goroutines finish is the schedule \<open>finished\<close>, a list of the indices; the stores happen
  in that order.
\<close>

definition zeroResult :: Result where
  "zeroResult = \<lparr>Context = [], Output = [], Error = None, ExitCode = 0\<rparr>"

fun stores ::
  "Executor \<Rightarrow> (int \<Rightarrow> string \<Rightarrow> string list \<Rightarrow> Ran) \<Rightarrow> string list \<Rightarrow> string list \<Rightarrow>
   nat list \<Rightarrow> Result list \<Rightarrow> Result list" where
  "stores e run contexts args [] results = results"
| "stores e run contexts args (index # later) results =
     stores e run contexts args later
       (results[index := executeOne e run (contexts ! index) args])"

definition schedule :: "nat list \<Rightarrow> nat \<Rightarrow> bool" where
  "schedule finished n = (distinct finished \<and> set finished = {0..<n})"

definition Execute ::
  "Executor \<Rightarrow> (int \<Rightarrow> string \<Rightarrow> string list \<Rightarrow> Ran) \<Rightarrow> nat list \<Rightarrow>
   string list \<Rightarrow> string list \<Rightarrow> Result list" where
  "Execute e run finished contexts args =
     stores e run contexts args finished (replicate (length contexts) zeroResult)"

text \<open>
  What \<open>cmd.Run\<close> of package \<open>os/exec\<close> leaves behind for a subprocess, by the way
  the subprocess ends. When nothing could be started (the executable is missing, or the
  context was done already) the error is no \<open>*exec.ExitError\<close>. A subprocess that ends
  by itself gives no error for status zero and an \<open>*exec.ExitError\<close> otherwise. One
  that is still running when the deadline passes is killed by \<open>os/exec\<close>, and \<open>Run\<close>
  reports it as it reports every subprocess that a signal has ended: an
  \<open>*exec.ExitError\<close> again. The \<open>*exec.ExitError\<close> carries the state of the ended
  process: \<open>exit_code\<close> is its \<open>ExitCode()\<close> (the status of a subprocess that exited; \<open>-1\<close>
  on Unix for one that a signal ended) and \<open>state_text\<close> its text. Both buffers hold
  what the subprocess wrote until it ended.
\<close>

datatype ending =
    NotStarted string
  | Exited
  | EndedBySignal
  | KilledAtDeadline

record subprocess =
  ending :: ending
  wrote_stdout :: string
  wrote_stderr :: string
  exit_code :: int
  state_text :: string

definition cmd_Run :: "subprocess \<Rightarrow> Ran" where
  "cmd_Run p =
     (case ending p of
        NotStarted text \<Rightarrow> \<lparr>stdout = [], stderr = [], err = Some (OtherError text)\<rparr>
      | Exited \<Rightarrow>
          \<lparr>stdout = wrote_stdout p, stderr = wrote_stderr p,
           err = (if exit_code p = 0 then None
                  else Some (ExitError (exit_code p) (state_text p)))\<rparr>
      | EndedBySignal \<Rightarrow>
          \<lparr>stdout = wrote_stdout p, stderr = wrote_stderr p,
           err = Some (ExitError (exit_code p) (state_text p))\<rparr>
      | KilledAtDeadline \<Rightarrow>
          \<lparr>stdout = wrote_stdout p, stderr = wrote_stderr p,
           err = Some (ExitError (exit_code p) (state_text p))\<rparr>)"

text \<open>
  The spec's "trimmed of trailing whitespace", as a function of its own to compare the
  program with: the string without the spaces, tabs, line feeds and carriage returns at
  its end.
\<close>

definition spec_whitespace :: "char \<Rightarrow> bool" where
  "spec_whitespace c = (byte c = 32 \<or> byte c = 9 \<or> byte c = 10 \<or> byte c = 13)"

definition spec_trimmed :: "string \<Rightarrow> string" where
  "spec_trimmed s = rev (dropWhile spec_whitespace (rev s))"

section \<open>Package output\<close>

record Merger =
  clusterColumnWidth :: nat

text \<open>
  \<open>formatLine\<close> builds the format \<open>%-Ns   %s\<close> with \<open>N\<close> the column width in decimal
  and prints the cluster and the line with it. \<open>fmt\<close> reads the width digit by digit and
  gives up when the number read so far is above a million and one more digit follows:
  that is a width of 10000010 or more. It then finds no verb in the format and prints a
  notice with the two arguments instead. For every smaller width it prints the cluster,
  then spaces up to a width of \<open>N\<close> runes (none when the cluster has \<open>N\<close> runes or
  more), then three spaces and the line.
\<close>

definition widthTooLarge :: "nat \<Rightarrow> bool" where
  "widthTooLarge width = (int width div 10 > 1000000)"

definition formatLine :: "Merger \<Rightarrow> string \<Rightarrow> string \<Rightarrow> string" where
  "formatLine m cluster line =
     (if widthTooLarge (clusterColumnWidth m)
      then ''%!(NOVERB)%!(EXTRA string='' @ cluster @ '', string='' @ line @ '')''
      else cluster @ replicate (clusterColumnWidth m - RuneCountInString cluster) (CHR '' '')
           @ ''   '' @ line)"

definition headerKeywords :: "string list" where
  "headerKeywords =
     [''NAME'', ''NAMESPACE'', ''STATUS'', ''READY'', ''AGE'', ''RESTARTS'',
      ''CLUSTER-IP'', ''EXTERNAL-IP'', ''PORT'', ''NODE'', ''NOMINATED'',
      ''READINESS'', ''REASON'', ''MESSAGE'', ''TYPE'', ''DATA'', ''CAPACITY'',
      ''ACCESS'', ''STORAGECLASS'', ''VOLUMEATTRIBUTESCLASS'', ''PROVISIONER'',
      ''RECLAIMPOLICY'', ''VOLUMEBINDINGMODE'', ''ALLOWVOLUMEEXPANSION'',
      ''COMPLETIONS'', ''DURATION'', ''SCHEDULE'', ''SUSPEND'', ''ACTIVE'',
      ''LAST'', ''DESIRED'', ''CURRENT'', ''UP-TO-DATE'', ''AVAILABLE'',
      ''REFERENCE'', ''TARGETS'', ''MINPODS'', ''MAXPODS'', ''REPLICAS'']"

fun matchCount_loop :: "string \<Rightarrow> string list \<Rightarrow> nat \<Rightarrow> nat" where
  "matchCount_loop upperLine [] matchCount = matchCount"
| "matchCount_loop upperLine (keyword # rest) matchCount =
     matchCount_loop upperLine rest
       (if Contains upperLine keyword then matchCount + 1 else matchCount)"

definition isHeaderLine :: "(string \<Rightarrow> string) \<Rightarrow> string \<Rightarrow> bool" where
  "isHeaderLine unicodeUpper line =
     (let upperLine = ToUpper unicodeUpper line;
          matchCount = matchCount_loop upperLine headerKeywords 0
      in matchCount \<ge> 2)"

text \<open>
  \<open>MergeResults\<close>. The first loop sets the column width of the merger: 7, or the
  length in bytes of the longest context name when that is more.
\<close>

fun width_loop :: "Result list \<Rightarrow> Merger \<Rightarrow> Merger" where
  "width_loop [] m = m"
| "width_loop (r # rest) m =
     width_loop rest
       (if length (Context r) > clusterColumnWidth m
        then m\<lparr>clusterColumnWidth := length (Context r)\<rparr> else m)"

text \<open>
  The state of the second loop: the builder \<open>output\<close> (here \<open>out\<close>) and the flag
  \<open>headerPrinted\<close>. \<open>lines_loop\<close> is the inner loop over the lines of one result,
  with \<open>i\<close> the index of the line at the head of the list; \<open>results_loop\<close> is the loop
  over the results.
\<close>

record merging =
  out :: string
  headerPrinted :: bool

fun lines_loop ::
  "(string \<Rightarrow> string) \<Rightarrow> Merger \<Rightarrow> bool \<Rightarrow> Result \<Rightarrow> nat \<Rightarrow> string list \<Rightarrow> merging \<Rightarrow> merging" where
  "lines_loop unicodeUpper m showHeaders result i [] st = st"
| "lines_loop unicodeUpper m showHeaders result i (line # rest) st =
     (if line = [] then lines_loop unicodeUpper m showHeaders result (i + 1) rest st
      else
        let isHeader = (i = 0 \<and> isHeaderLine unicodeUpper line) in
        if isHeader then
          (if \<not> headerPrinted st \<and> showHeaders
           then lines_loop unicodeUpper m showHeaders result (i + 1) rest
                  (st\<lparr>out := out st @ formatLine m ''CLUSTER'' line @ nl,
                      headerPrinted := True\<rparr>)
           else lines_loop unicodeUpper m showHeaders result (i + 1) rest st)
        else lines_loop unicodeUpper m showHeaders result (i + 1) rest
               (st\<lparr>out := out st @ formatLine m (Context result) line @ nl\<rparr>))"

fun results_loop ::
  "(string \<Rightarrow> string) \<Rightarrow> Merger \<Rightarrow> bool \<Rightarrow> Result list \<Rightarrow> merging \<Rightarrow> merging" where
  "results_loop unicodeUpper m showHeaders [] st = st"
| "results_loop unicodeUpper m showHeaders (result # rest) st =
     (case Error result of
        Some e \<Rightarrow>
          results_loop unicodeUpper m showHeaders rest
            (st\<lparr>out := out st @ ''# Error from cluster '' @ Context result @ '': ''
                           @ error_text e @ nl\<rparr>)
      | None \<Rightarrow>
          if Output result = [] then results_loop unicodeUpper m showHeaders rest st
          else
            let lines = Split (TrimSuffix (Output result) nl) newline in
            if length lines = 0 then results_loop unicodeUpper m showHeaders rest st
            else results_loop unicodeUpper m showHeaders rest
                   (lines_loop unicodeUpper m showHeaders result 0 lines st))"

definition MergeResults :: "(string \<Rightarrow> string) \<Rightarrow> Result list \<Rightarrow> bool \<Rightarrow> string" where
  "MergeResults unicodeUpper results showHeaders =
     (if length results = 0 then []
      else
        let m = width_loop results \<lparr>clusterColumnWidth = 7\<rparr> in
        out (results_loop unicodeUpper m showHeaders results
                  \<lparr>out = [], headerPrinted = False\<rparr>))"

text \<open>
  \<open>MergeNonTableOutput\<close>, with the builder \<open>output\<close> (here \<open>buf\<close>) as the
  accumulator of the loop.
\<close>

fun nonTable_loop :: "Result list \<Rightarrow> string \<Rightarrow> string" where
  "nonTable_loop [] buf = buf"
| "nonTable_loop (result # rest) buf =
     (case Error result of
        Some e \<Rightarrow>
          nonTable_loop rest
            (buf @ ''=== Cluster: '' @ Context result @ '' (Error: '' @ error_text e
                    @ '') ==='' @ nl)
      | None \<Rightarrow>
          nonTable_loop rest
            (buf @ ''=== Cluster: '' @ Context result @ '' ==='' @ nl
                    @ Output result
                    @ (if \<not> HasSuffix (Output result) nl then nl else [])
                    @ nl))"

definition MergeNonTableOutput :: "Result list \<Rightarrow> string" where
  "MergeNonTableOutput results = nonTable_loop results []"

text \<open>
  To state that a merge does not read the output of a result with an error:
  \<open>overwrite f r\<close> puts \<open>f r\<close> in the place of the output of a result with an error
  and leaves every other result alone.
\<close>

definition overwrite :: "(Result \<Rightarrow> string) \<Rightarrow> Result \<Rightarrow> Result" where
  "overwrite f r = (case Error r of Some e \<Rightarrow> r\<lparr>Output := f r\<rparr> | None \<Rightarrow> r)"

section \<open>Facts about package cluster\<close>

lemma GetContexts_loop_eq: "GetContexts_loop es acc = acc @ map Name es"
  by (induction es arbitrary: acc) simp_all

lemma GetContexts_eq: "GetContexts m = map Name (Contexts (config m))"
  by (simp add: GetContexts_def GetContexts_loop_eq)

lemma available_loop_index:
  "map_index (available_loop es a) k \<longleftrightarrow> k \<in> Name ` set es \<or> map_index a k"
  by (induction es arbitrary: a) (auto simp: map_index_def)

lemma filtered_loop_eq:
  "filtered_loop a cs acc = acc @ filter (map_index a) cs"
  by (induction cs arbitrary: acc) simp_all

text \<open>
  Claim C7. For a non-empty list of requested names, \<open>FilterContexts\<close> returns the
  requested names that occur among the context names of the kubeconfig, each as often
  and in the order it was requested. The names that do not occur are left out; the
  function returns a plain list and has no error result.
\<close>

theorem FilterContexts_nonempty:
  "contexts \<noteq> [] \<Longrightarrow>
   FilterContexts m contexts = filter (\<lambda>ctx. ctx \<in> set (GetContexts m)) contexts"
proof -
  assume "contexts \<noteq> []"
  have "map_index (available_loop (Contexts (config m)) Map.empty) =
        (\<lambda>ctx. ctx \<in> set (GetContexts m))"
  proof (rule ext)
    fix ctx
    have "\<not> map_index Map.empty ctx"
      by (simp add: map_index_def)
    then show "map_index (available_loop (Contexts (config m)) Map.empty) ctx =
               (ctx \<in> set (GetContexts m))"
      by (simp add: available_loop_index GetContexts_eq)
  qed
  with \<open>contexts \<noteq> []\<close> show ?thesis
    by (simp add: FilterContexts_def filtered_loop_eq)
qed

theorem FilterContexts_nonempty_witness:
  "[''prod'', ''ghost'', ''dev''] \<noteq> [] \<and>
   FilterContexts
     \<lparr>Manager.kubeConfigPath = ''cfg'',
      config = \<lparr>CurrentContext = ''dev'',
                Contexts = [\<lparr>Name = ''dev'', Cluster = ''c1'', User = ''u1'', Namespace = ''''\<rparr>,
                            \<lparr>Name = ''prod'', Cluster = ''c2'', User = ''u2'', Namespace = ''''\<rparr>]\<rparr>\<rparr>
     [''prod'', ''ghost'', ''dev''] = [''prod'', ''dev'']"
  using FilterContexts_nonempty
    [of "[''prod'', ''ghost'', ''dev'']"
        "\<lparr>Manager.kubeConfigPath = ''cfg'',
          config = \<lparr>CurrentContext = ''dev'',
                    Contexts = [\<lparr>Name = ''dev'', Cluster = ''c1'', User = ''u1'', Namespace = ''''\<rparr>,
                                \<lparr>Name = ''prod'', Cluster = ''c2'', User = ''u2'', Namespace = ''''\<rparr>]\<rparr>\<rparr>"]
  by (simp add: GetContexts_def)

text \<open>
  Claim C9. For the empty list of requested names, \<open>FilterContexts\<close> returns all the
  context names of the kubeconfig, in file order, and not the empty list.
\<close>

theorem FilterContexts_empty:
  "FilterContexts m [] = map Name (Contexts (config m))"
  by (simp add: FilterContexts_def GetContexts_eq)

section \<open>Facts about package executor\<close>

lemma executeOne_Context: "Context (executeOne e run contextName args) = contextName"
  by (simp add: executeOne_def Let_def split: option.split go_error.split)

lemma length_stores:
  "length (stores e run contexts args finished results) = length results"
  by (induction finished arbitrary: results) simp_all

lemma nth_stores:
  "i < length results \<Longrightarrow>
   stores e run contexts args finished results ! i =
     (if i \<in> set finished then executeOne e run (contexts ! i) args else results ! i)"
proof (induction finished arbitrary: results)
  case Nil
  then show ?case by simp
next
  case (Cons index later)
  let ?stored = "results[index := executeOne e run (contexts ! index) args]"
  have "i < length ?stored"
    using Cons.prems by simp
  then have "stores e run contexts args later ?stored ! i =
        (if i \<in> set later then executeOne e run (contexts ! i) args else ?stored ! i)"
    by (rule Cons.IH)
  then show ?case
    using Cons.prems by (auto simp: nth_list_update)
qed

lemma Execute_eq_map:
  assumes "schedule finished (length contexts)"
  shows "Execute e run finished contexts args = map (\<lambda>c. executeOne e run c args) contexts"
proof (rule nth_equalityI)
  show "length (Execute e run finished contexts args) =
        length (map (\<lambda>c. executeOne e run c args) contexts)"
    by (simp add: Execute_def length_stores)
next
  fix i
  assume "i < length (Execute e run finished contexts args)"
  then have i: "i < length contexts"
    by (simp add: Execute_def length_stores)
  with assms have "i \<in> set finished"
    by (simp add: schedule_def)
  with i show "Execute e run finished contexts args ! i =
               map (\<lambda>c. executeOne e run c args) contexts ! i"
    by (simp add: Execute_def nth_stores)
qed

text \<open>
  Claim C1. Whatever the order in which the goroutines finish, \<open>Execute\<close> returns as
  many results as there are contexts, and the result at each index has the context of
  that index in its \<open>Context\<close> field.
\<close>

theorem Execute_positional:
  assumes "schedule finished (length contexts)"
  shows "length (Execute e run finished contexts args) = length contexts \<and>
         (\<forall>i < length contexts. Context (Execute e run finished contexts args ! i) = contexts ! i)"
  using Execute_eq_map [OF assms] by (simp add: executeOne_Context)

theorem Execute_positional_witness:
  "schedule [2, 0, 1] (length [''dev'', ''prod'', ''test'']) \<and>
   length (Execute \<lparr>kubeConfigPath = ''cfg'', timeout = 30\<rparr>
             (\<lambda>duration name cmdArgs. \<lparr>stdout = ''ok'', stderr = [], err = None\<rparr>)
             [2, 0, 1] [''dev'', ''prod'', ''test''] [''get'', ''pods'']) = 3 \<and>
   Context (Execute \<lparr>kubeConfigPath = ''cfg'', timeout = 30\<rparr>
             (\<lambda>duration name cmdArgs. \<lparr>stdout = ''ok'', stderr = [], err = None\<rparr>)
             [2, 0, 1] [''dev'', ''prod'', ''test''] [''get'', ''pods''] ! 1) = ''prod''"
proof -
  have s: "schedule [2, 0, 1] (length [''dev'', ''prod'', ''test''])"
    by (auto simp: schedule_def)
  show ?thesis
    using s Execute_positional [OF s, of "\<lparr>kubeConfigPath = ''cfg'', timeout = 30\<rparr>"
        "\<lambda>duration name cmdArgs. \<lparr>stdout = ''ok'', stderr = [], err = None\<rparr>" "[''get'', ''pods'']"]
    by simp
qed

text \<open>
  Claim C10. Whatever \<open>cmd.Run\<close> returns, \<open>executeOne\<close> puts the bytes captured from
  the standard output of the subprocess into the \<open>Output\<close> field; the error branches
  leave the field as it is, so a result with an error keeps the output written before
  the failure.
\<close>

theorem executeOne_Output:
  "Output (executeOne e run contextName args) =
   stdout (run (timeout e) ''kubectl''
     ((if Executor.kubeConfigPath e \<noteq> [] then [''--kubeconfig'', Executor.kubeConfigPath e] else [])
      @ [''--context'', contextName] @ args))"
  by (simp add: executeOne_def Let_def split: option.split go_error.split)

theorem executeOne_Output_witness:
  "Output (executeOne \<lparr>kubeConfigPath = [], timeout = 30\<rparr>
     (\<lambda>duration name cmdArgs.
        \<lparr>stdout = ''partial'', stderr = ''boom'', err = Some (ExitError 1 ''exit status 1'')\<rparr>)
     ''dev'' [''get'', ''pods'']) = ''partial'' \<and>
   Error (executeOne \<lparr>kubeConfigPath = [], timeout = 30\<rparr>
     (\<lambda>duration name cmdArgs.
        \<lparr>stdout = ''partial'', stderr = ''boom'', err = Some (ExitError 1 ''exit status 1'')\<rparr>)
     ''dev'' [''get'', ''pods'']) = Some (Errorf ''boom'')"
  using executeOne_Output [of "\<lparr>kubeConfigPath = [], timeout = 30\<rparr>"
      "\<lambda>duration name cmdArgs.
         \<lparr>stdout = ''partial'', stderr = ''boom'', err = Some (ExitError 1 ''exit status 1'')\<rparr>"
      "''dev''" "[''get'', ''pods'']"]
  by (simp add: executeOne_def)

text \<open>
  Claim C3, as the program has it. When \<open>cmd.Run\<close> returns an \<open>*exec.ExitError\<close>, the
  error of the result is built by \<open>fmt.Errorf("%s", stderr.String())\<close>: its text is the
  captured standard error byte for byte, with nothing trimmed, and \<open>ExitCode\<close> is the
  exit code of the \<open>*exec.ExitError\<close>.
\<close>

theorem executeOne_ExitError:
  assumes "err (run (timeout e) ''kubectl''
             ((if Executor.kubeConfigPath e \<noteq> [] then [''--kubeconfig'', Executor.kubeConfigPath e] else [])
              @ [''--context'', contextName] @ args)) = Some (ExitError code text)"
  shows "Error (executeOne e run contextName args) =
           Some (Errorf (stderr (run (timeout e) ''kubectl''
             ((if Executor.kubeConfigPath e \<noteq> [] then [''--kubeconfig'', Executor.kubeConfigPath e] else [])
              @ [''--context'', contextName] @ args)))) \<and>
         ExitCode (executeOne e run contextName args) = code"
  using assms by (simp add: executeOne_def Let_def split: if_splits)

theorem executeOne_ExitError_witness:
  "err ((\<lambda>duration name cmdArgs.
          \<lparr>stdout = [], stderr = ''boom'' @ nl, err = Some (ExitError 3 ''exit status 3'')\<rparr>)
        (timeout \<lparr>kubeConfigPath = ''cfg'', timeout = 30\<rparr>) ''kubectl''
        [''--kubeconfig'', ''cfg'', ''--context'', ''dev'', ''get'', ''pods''])
     = Some (ExitError 3 ''exit status 3'') \<and>
   Error (executeOne \<lparr>kubeConfigPath = ''cfg'', timeout = 30\<rparr>
     (\<lambda>duration name cmdArgs.
        \<lparr>stdout = [], stderr = ''boom'' @ nl, err = Some (ExitError 3 ''exit status 3'')\<rparr>)
     ''dev'' [''get'', ''pods'']) = Some (Errorf (''boom'' @ nl)) \<and>
   ExitCode (executeOne \<lparr>kubeConfigPath = ''cfg'', timeout = 30\<rparr>
     (\<lambda>duration name cmdArgs.
        \<lparr>stdout = [], stderr = ''boom'' @ nl, err = Some (ExitError 3 ''exit status 3'')\<rparr>)
     ''dev'' [''get'', ''pods'']) = 3"
  using executeOne_ExitError [of
      "\<lambda>duration name cmdArgs.
         \<lparr>stdout = [], stderr = ''boom'' @ nl, err = Some (ExitError 3 ''exit status 3'')\<rparr>"
      "\<lparr>kubeConfigPath = ''cfg'', timeout = 30\<rparr>" "''dev''" "[''get'', ''pods'']" 3 "''exit status 3''"]
  by simp

text \<open>
  The claim as the spec words it fails for a subprocess that ends with status 1 after
  writing \<open>boom\<close> and a line feed to its standard error: the text of the error keeps the
  line feed, and the trimmed text does not.
\<close>

theorem executeOne_stderr_not_trimmed:
  "map_option error_text
     (Error (executeOne \<lparr>kubeConfigPath = [], timeout = 30\<rparr>
        (\<lambda>duration name cmdArgs.
           \<lparr>stdout = [], stderr = ''boom'' @ nl, err = Some (ExitError 1 ''exit status 1'')\<rparr>)
        ''dev'' [''get'', ''pods''])) = Some (''boom'' @ nl) \<and>
   spec_trimmed (''boom'' @ nl) = ''boom'' \<and>
   ''boom'' @ nl \<noteq> ''boom''"
  by (simp add: executeOne_def spec_trimmed_def spec_whitespace_def byte_def nl_def newline_def)

text \<open>
  Claim C8, as the program has it. \<open>executeOne\<close> never asks the context whether the
  deadline has passed. A subprocess killed at the deadline reaches it as an
  \<open>*exec.ExitError\<close>, so its result is built by the branch of the nonzero exit: the error
  is \<open>fmt.Errorf\<close> of the captured standard error, the exit code is the one of the killed
  process (\<open>-1\<close> on Unix), and the output is what was captured until the kill.
\<close>

theorem executeOne_KilledAtDeadline:
  assumes "ending p = KilledAtDeadline"
  shows "executeOne e (\<lambda>duration name cmdArgs. cmd_Run p) contextName args =
         \<lparr>Context = contextName, Output = wrote_stdout p,
          Error = Some (Errorf (wrote_stderr p)), ExitCode = exit_code p\<rparr>"
  using assms by (simp add: executeOne_def cmd_Run_def Let_def)

theorem executeOne_KilledAtDeadline_witness:
  "ending \<lparr>ending = KilledAtDeadline, wrote_stdout = ''partial'', wrote_stderr = [],
           exit_code = - 1, state_text = ''signal: killed''\<rparr> = KilledAtDeadline \<and>
   executeOne \<lparr>kubeConfigPath = [], timeout = 30\<rparr>
     (\<lambda>duration name cmdArgs.
        cmd_Run \<lparr>ending = KilledAtDeadline, wrote_stdout = ''partial'', wrote_stderr = [],
                 exit_code = - 1, state_text = ''signal: killed''\<rparr>)
     ''dev'' [''get'', ''pods''] =
   \<lparr>Context = ''dev'', Output = ''partial'', Error = Some (Errorf []), ExitCode = - 1\<rparr>"
  using executeOne_KilledAtDeadline
    [of "\<lparr>ending = KilledAtDeadline, wrote_stdout = ''partial'', wrote_stderr = [],
          exit_code = - 1, state_text = ''signal: killed''\<rparr>"
        "\<lparr>kubeConfigPath = [], timeout = 30\<rparr>" "''dev''" "[''get'', ''pods'']"]
  by simp

text \<open>
  The claim as the spec words it fails: the result of a subprocess killed at the
  deadline is the result of one that a signal from elsewhere ended before the deadline,
  and its error is the error of one that ended by itself with status 1. No kind of
  error sets the timeout apart.
\<close>

theorem executeOne_timeout_not_distinct:
  "executeOne \<lparr>kubeConfigPath = [], timeout = 30\<rparr>
     (\<lambda>duration name cmdArgs.
        cmd_Run \<lparr>ending = KilledAtDeadline, wrote_stdout = ''partial'', wrote_stderr = ''late'',
                 exit_code = - 1, state_text = ''signal: killed''\<rparr>)
     ''dev'' [''get'', ''pods''] =
   executeOne \<lparr>kubeConfigPath = [], timeout = 30\<rparr>
     (\<lambda>duration name cmdArgs.
        cmd_Run \<lparr>ending = EndedBySignal, wrote_stdout = ''partial'', wrote_stderr = ''late'',
                 exit_code = - 1, state_text = ''signal: killed''\<rparr>)
     ''dev'' [''get'', ''pods''] \<and>
   Error (executeOne \<lparr>kubeConfigPath = [], timeout = 30\<rparr>
     (\<lambda>duration name cmdArgs.
        cmd_Run \<lparr>ending = KilledAtDeadline, wrote_stdout = ''partial'', wrote_stderr = ''late'',
                 exit_code = - 1, state_text = ''signal: killed''\<rparr>)
     ''dev'' [''get'', ''pods'']) =
   Error (executeOne \<lparr>kubeConfigPath = [], timeout = 30\<rparr>
     (\<lambda>duration name cmdArgs.
        cmd_Run \<lparr>ending = Exited, wrote_stdout = ''partial'', wrote_stderr = ''late'',
                 exit_code = 1, state_text = ''exit status 1''\<rparr>)
     ''dev'' [''get'', ''pods''])"
  by (simp add: executeOne_def cmd_Run_def)

section \<open>Facts about package output\<close>

subsection \<open>Splitting, trimming and counting\<close>

lemma Split_from_nonempty: "Split_from sep cur s \<noteq> []"
  by (induction s arbitrary: cur) simp_all

lemma Split_nonempty: "Split s sep \<noteq> []"
  by (simp add: Split_def Split_from_nonempty)




lemma HasSuffix_append: "HasSuffix (a @ s) s"
  by (simp add: HasSuffix_def)





subsection \<open>The loops of the tabular merge\<close>

lemma isHeaderLine_empty: "\<not> isHeaderLine u []"
  by code_simp

lemma merging_out_update:
  "st\<lparr>out := x\<rparr> = \<lparr>out = x, headerPrinted = headerPrinted st\<rparr>"
  by (cases st) simp

lemma merging_both_update:
  "st\<lparr>headerPrinted := b, out := x\<rparr> = \<lparr>out = x, headerPrinted = b\<rparr>"
  by (cases st) simp

lemma lines_loop_rows:
  "0 < i \<Longrightarrow>
   lines_loop u m sh r i ls st =
     st\<lparr>out := out st @ concat (map (\<lambda>line. formatLine m (Context r) line @ nl)
                                   (filter (\<lambda>line. line \<noteq> []) ls))\<rparr>"
  by (induction ls arbitrary: i st) simp_all

lemma lines_loop_first:
  "lines_loop u m sh r 0 (line # rest) st =
     (if isHeaderLine u line
      then lines_loop u m sh r 1 rest
             (if \<not> headerPrinted st \<and> sh
              then st\<lparr>out := out st @ formatLine m ''CLUSTER'' line @ nl, headerPrinted := True\<rparr>
              else st)
      else lines_loop u m sh r 1 rest
             (if line = [] then st else st\<lparr>out := out st @ formatLine m (Context r) line @ nl\<rparr>))"
  using isHeaderLine_empty [of u] by auto

lemma lines_loop_header:
  "lines_loop u m sh r 0 lines st =
     (let rows = (\<lambda>ls. concat (map (\<lambda>line. formatLine m (Context r) line @ nl)
                                   (filter (\<lambda>line. line \<noteq> []) ls)))
      in if lines \<noteq> [] \<and> isHeaderLine u (hd lines)
         then st\<lparr>out := out st
                      @ (if \<not> headerPrinted st \<and> sh
                         then formatLine m ''CLUSTER'' (hd lines) @ nl else [])
                      @ rows (tl lines),
                 headerPrinted := (headerPrinted st \<or> sh)\<rparr>
         else st\<lparr>out := out st @ rows lines\<rparr>)"
proof (cases lines)
  case Nil
  then show ?thesis by simp
next
  case (Cons line rest)
  show ?thesis
    unfolding Cons lines_loop_first
    by (simp add: lines_loop_rows Let_def)
qed

lemma lines_loop_out:
  "lines_loop u m sh r i ls st =
     (lines_loop u m sh r i ls (st\<lparr>out := []\<rparr>))
       \<lparr>out := out st @ out (lines_loop u m sh r i ls (st\<lparr>out := []\<rparr>))\<rparr>"
proof (cases "0 < i")
  case True
  then show ?thesis by (simp add: lines_loop_rows)
next
  case False
  then show ?thesis by (simp add: lines_loop_header Let_def)
qed

lemma results_loop_append:
  "results_loop u m sh (xs @ ys) st = results_loop u m sh ys (results_loop u m sh xs st)"
  by (induction xs arbitrary: st) (simp_all add: Let_def split: option.split)

lemma results_loop_Cons:
  "results_loop u m sh (r # rest) st = results_loop u m sh rest (results_loop u m sh [r] st)"
  using results_loop_append [of u m sh "[r]" rest st] by simp

lemma results_loop_single_out:
  "results_loop u m sh [r] st =
     (results_loop u m sh [r] (st\<lparr>out := []\<rparr>))
       \<lparr>out := out st @ out (results_loop u m sh [r] (st\<lparr>out := []\<rparr>))\<rparr>"
proof (cases "Error r")
  case (Some e)
  then show ?thesis by simp
next
  case None
  show ?thesis
  proof (cases "Output r = []")
    case True
    with None show ?thesis by simp
  next
    case False
    let ?lines = "Split (TrimSuffix (Output r) nl) newline"
    have "lines_loop u m sh r 0 ?lines st =
          (lines_loop u m sh r 0 ?lines (st\<lparr>out := []\<rparr>))
            \<lparr>out := out st @ out (lines_loop u m sh r 0 ?lines (st\<lparr>out := []\<rparr>))\<rparr>"
      by (rule lines_loop_out)
    with None False show ?thesis
      by (simp add: Let_def)
  qed
qed

lemma results_loop_out:
  "results_loop u m sh rs st =
     (results_loop u m sh rs (st\<lparr>out := []\<rparr>))
       \<lparr>out := out st @ out (results_loop u m sh rs (st\<lparr>out := []\<rparr>))\<rparr>"
proof (induction rs arbitrary: st)
  case Nil
  show ?case by simp
next
  case (Cons r rest)
  let ?one = "results_loop u m sh [r] (st\<lparr>out := []\<rparr>)"
  let ?tail = "results_loop u m sh rest (?one\<lparr>out := []\<rparr>)"
  have one: "results_loop u m sh [r] st = ?one\<lparr>out := out st @ out ?one\<rparr>"
    by (rule results_loop_single_out)
  have a: "results_loop u m sh (r # rest) st = ?tail\<lparr>out := (out st @ out ?one) @ out ?tail\<rparr>"
    unfolding results_loop_Cons [of u m sh r rest st] one
    using Cons.IH [of "?one\<lparr>out := out st @ out ?one\<rparr>"] by simp
  have b: "results_loop u m sh (r # rest) (st\<lparr>out := []\<rparr>) = ?tail\<lparr>out := out ?one @ out ?tail\<rparr>"
    unfolding results_loop_Cons [of u m sh r rest "st\<lparr>out := []\<rparr>"]
    using Cons.IH [of ?one] by simp
  show ?case
    unfolding a b by simp
qed

lemma results_loop_success:
  assumes "Error r = None" and "Output r \<noteq> []"
  shows "results_loop u m sh [r] st =
         lines_loop u m sh r 0 (Split (TrimSuffix (Output r) nl) newline) st"
  using assms Split_nonempty [of "TrimSuffix (Output r) nl" newline]
  by (simp add: Let_def)

lemma MergeResults_at:
  "MergeResults u (before @ r # after) sh =
     (let m = width_loop (before @ r # after) \<lparr>clusterColumnWidth = 7\<rparr>;
          seen = results_loop u m sh before \<lparr>out = [], headerPrinted = False\<rparr>;
          own = results_loop u m sh [r] (seen\<lparr>out := []\<rparr>)
      in out seen @ out own @ out (results_loop u m sh after (own\<lparr>out := []\<rparr>)))"
proof -
  let ?m = "width_loop (before @ r # after) \<lparr>clusterColumnWidth = 7\<rparr>"
  let ?seen = "results_loop u ?m sh before \<lparr>out = [], headerPrinted = False\<rparr>"
  let ?own = "results_loop u ?m sh [r] (?seen\<lparr>out := []\<rparr>)"
  have "results_loop u ?m sh (before @ r # after) \<lparr>out = [], headerPrinted = False\<rparr> =
        results_loop u ?m sh after (results_loop u ?m sh [r] ?seen)"
    using results_loop_append [of u ?m sh before "r # after"]
      results_loop_Cons [of u ?m sh r after] by simp
  moreover have "results_loop u ?m sh [r] ?seen = ?own\<lparr>out := out ?seen @ out ?own\<rparr>"
    by (rule results_loop_single_out)
  moreover have "out (results_loop u ?m sh after (?own\<lparr>out := out ?seen @ out ?own\<rparr>)) =
        (out ?seen @ out ?own) @ out (results_loop u ?m sh after (?own\<lparr>out := []\<rparr>))"
    using results_loop_out [of u ?m sh after "?own\<lparr>out := out ?seen @ out ?own\<rparr>"] by simp
  ultimately show ?thesis
    by (simp add: MergeResults_def Let_def)
qed

lemma MergeResults_at_error:
  assumes "Error r = Some e"
  shows "MergeResults u (before @ r # after) sh =
     (let m = width_loop (before @ r # after) \<lparr>clusterColumnWidth = 7\<rparr>;
          seen = results_loop u m sh before \<lparr>out = [], headerPrinted = False\<rparr>
      in out seen
         @ ''# Error from cluster '' @ Context r @ '': '' @ error_text e @ nl
         @ out (results_loop u m sh after \<lparr>out = [], headerPrinted = headerPrinted seen\<rparr>))"
  unfolding MergeResults_at using assms by (simp add: Let_def merging_out_update)

lemma width_loop_overwrite: "width_loop (map (overwrite f) rs) m = width_loop rs m"
  by (induction rs arbitrary: m) (simp_all add: overwrite_def split: option.split)

lemma results_loop_overwrite:
  "results_loop u m sh (map (overwrite f) rs) st = results_loop u m sh rs st"
  by (induction rs arbitrary: st) (simp_all add: overwrite_def Let_def split: option.split)

lemma MergeResults_overwrite:
  "MergeResults u (map (overwrite f) rs) sh = MergeResults u rs sh"
  by (simp add: MergeResults_def width_loop_overwrite results_loop_overwrite)



subsection \<open>The loop of the grouped merge\<close>

lemma nonTable_loop_overwrite:
  "nonTable_loop (map (overwrite f) rs) buf = nonTable_loop rs buf"
  by (induction rs arbitrary: buf) (simp_all add: overwrite_def split: option.split)

lemma nonTable_loop_eq:
  "nonTable_loop rs buf =
     buf @ concat (map (\<lambda>r. case Error r of
         Some e \<Rightarrow> ''=== Cluster: '' @ Context r @ '' (Error: '' @ error_text e @ '') ==='' @ nl
       | None \<Rightarrow> ''=== Cluster: '' @ Context r @ '' ==='' @ nl @ Output r
                 @ (if HasSuffix (Output r) nl then [] else nl) @ nl) rs)"
  by (induction rs arbitrary: buf) (simp_all split: option.split)

subsection \<open>The tabular merge, claim by claim\<close>

text \<open>
  Claim C2, as the program has it. In a walk over any list of results, a result without
  an error and with output contributes as follows. The output loses one line feed at its
  end, if it has one, and is split at every line feed. The first line, when
  \<open>isHeaderLine\<close> accepts it, is the header: it is printed behind \<open>CLUSTER\<close> when no
  header was printed before and headers are shown, and dropped otherwise. Of the other
  lines every empty one is skipped, wherever it stands, and every other one is printed
  behind the context name, in the order of the output. No empty line becomes a row.
\<close>

theorem MergeResults_success:
  assumes "Error r = None" and "Output r \<noteq> []"
  shows "MergeResults u (before @ r # after) sh =
     (let m = width_loop (before @ r # after) \<lparr>clusterColumnWidth = 7\<rparr>;
          seen = results_loop u m sh before \<lparr>out = [], headerPrinted = False\<rparr>;
          lines = Split (TrimSuffix (Output r) nl) newline;
          rows = (\<lambda>ls. concat (map (\<lambda>line. formatLine m (Context r) line @ nl)
                                   (filter (\<lambda>line. line \<noteq> []) ls)))
      in out seen
         @ (if isHeaderLine u (hd lines)
            then (if \<not> headerPrinted seen \<and> sh
                  then formatLine m ''CLUSTER'' (hd lines) @ nl else [])
                 @ rows (tl lines)
            else rows lines)
         @ out (results_loop u m sh after
                  \<lparr>out = [],
                   headerPrinted = (headerPrinted seen \<or> (isHeaderLine u (hd lines) \<and> sh))\<rparr>))"
proof -
  let ?m = "width_loop (before @ r # after) \<lparr>clusterColumnWidth = 7\<rparr>"
  let ?seen = "results_loop u ?m sh before \<lparr>out = [], headerPrinted = False\<rparr>"
  let ?lines = "Split (TrimSuffix (Output r) nl) newline"
  have "?lines \<noteq> []"
    by (rule Split_nonempty)
  then show ?thesis
    unfolding MergeResults_at results_loop_success [OF assms] lines_loop_header
    by (simp add: Let_def merging_out_update merging_both_update)
qed

theorem MergeResults_success_witness:
  "Error \<lparr>Context = ''dev'', Output = ''web\<newline>\<newline>db\<newline>'', Error = None, ExitCode = 0\<rparr> = None \<and>
   Output \<lparr>Context = ''dev'', Output = ''web\<newline>\<newline>db\<newline>'', Error = None, ExitCode = 0\<rparr> \<noteq> [] \<and>
   MergeResults (\<lambda>s. s)
     [\<lparr>Context = ''dev'', Output = ''web\<newline>\<newline>db\<newline>'', Error = None, ExitCode = 0\<rparr>] True =
   ''dev       web\<newline>dev       db\<newline>''"
proof -
  have lines: "Split (TrimSuffix ''web\<newline>\<newline>db\<newline>'' nl) newline = [''web'', [], ''db'']"
    by code_simp
  have h: "\<not> isHeaderLine (\<lambda>s. s) ''web''"
    by code_simp
  have f: "formatLine \<lparr>clusterColumnWidth = 7\<rparr> ''dev'' ''web'' @ nl = ''dev       web\<newline>''"
    "formatLine \<lparr>clusterColumnWidth = 7\<rparr> ''dev'' ''db'' @ nl = ''dev       db\<newline>''"
    by code_simp+
  show ?thesis
    using MergeResults_success [of
        "\<lparr>Context = ''dev'', Output = ''web\<newline>\<newline>db\<newline>'', Error = None, ExitCode = 0\<rparr>"
        "\<lambda>s. s" "[]" "[]" True]
    by (simp add: lines h f Let_def)
qed

text \<open>
  The claim as the spec words it fails on an output with a blank line between two
  rows: the merge prints the two rows and no row for the blank line.
\<close>

theorem MergeResults_blank_line_dropped:
  "MergeResults (\<lambda>s. s)
     [\<lparr>Context = ''cluster'', Output = ''a\<newline>\<newline>b\<newline>'', Error = None, ExitCode = 0\<rparr>] True =
   ''cluster   a\<newline>cluster   b\<newline>'' \<and>
   MergeResults (\<lambda>s. s)
     [\<lparr>Context = ''cluster'', Output = ''a\<newline>\<newline>b\<newline>'', Error = None, ExitCode = 0\<rparr>] True \<noteq>
   ''cluster   a\<newline>cluster   \<newline>cluster   b\<newline>''"
  by code_simp




text \<open>
  Claim C6, as the program has it. In a walk over any list of results, a result with an
  error contributes the text \<open># Error from cluster\<close>, its context, a colon, a space, the
  text of the error and a line feed, once, between what the results before it and after
  it contribute; it prints no header, no row, and leaves the header flag as it was. The
  text of the error goes in as it is, so it is one line only when the text holds no line
  feed. Neither merge reads the output of a result with an error: putting anything else
  in its place changes nothing. Both merges are total functions to strings, with no
  error to return.
\<close>

theorem MergeResults_error_line:
  assumes "Error r = Some e"
  shows "MergeResults u (before @ r # after) sh =
     (let m = width_loop (before @ r # after) \<lparr>clusterColumnWidth = 7\<rparr>;
          seen = results_loop u m sh before \<lparr>out = [], headerPrinted = False\<rparr>
      in out seen
         @ ''# Error from cluster '' @ Context r @ '': '' @ error_text e @ nl
         @ out (results_loop u m sh after \<lparr>out = [], headerPrinted = headerPrinted seen\<rparr>)) \<and>
     MergeResults u (map (overwrite f) results) sh = MergeResults u results sh \<and>
     MergeNonTableOutput (map (overwrite f) results) = MergeNonTableOutput results"
  using MergeResults_at_error [OF assms]
  by (simp add: MergeResults_overwrite MergeNonTableOutput_def nonTable_loop_overwrite)

theorem MergeResults_error_line_witness:
  "Error \<lparr>Context = ''prod'', Output = ''NAME READY\<newline>ghost 1/1\<newline>'',
          Error = Some (Errorf ''boom\<newline>''), ExitCode = 1\<rparr> = Some (Errorf ''boom\<newline>'') \<and>
   MergeResults (\<lambda>s. s)
     [\<lparr>Context = ''dev'', Output = ''NAME READY\<newline>web 1/1\<newline>'', Error = None, ExitCode = 0\<rparr>,
      \<lparr>Context = ''prod'', Output = ''NAME READY\<newline>ghost 1/1\<newline>'',
       Error = Some (Errorf ''boom\<newline>''), ExitCode = 1\<rparr>,
      \<lparr>Context = ''test'', Output = ''NAME READY\<newline>db 0/1\<newline>'', Error = None, ExitCode = 0\<rparr>]
     True =
   ''CLUSTER   NAME READY\<newline>dev       web 1/1\<newline># Error from cluster prod: boom\<newline>\<newline>test      db 0/1\<newline>''"
proof -
  let ?dev = "\<lparr>Context = ''dev'', Output = ''NAME READY\<newline>web 1/1\<newline>'', Error = None, ExitCode = 0\<rparr>"
  let ?prod = "\<lparr>Context = ''prod'', Output = ''NAME READY\<newline>ghost 1/1\<newline>'',
                Error = Some (Errorf ''boom\<newline>''), ExitCode = 1\<rparr>"
  let ?test = "\<lparr>Context = ''test'', Output = ''NAME READY\<newline>db 0/1\<newline>'', Error = None, ExitCode = 0\<rparr>"
  have m: "width_loop ([?dev] @ ?prod # [?test]) \<lparr>clusterColumnWidth = 7\<rparr> = \<lparr>clusterColumnWidth = 7\<rparr>"
    by code_simp
  have seen: "results_loop (\<lambda>s. s) \<lparr>clusterColumnWidth = 7\<rparr> True [?dev] \<lparr>out = [], headerPrinted = False\<rparr> =
      \<lparr>out = ''CLUSTER   NAME READY\<newline>dev       web 1/1\<newline>'', headerPrinted = True\<rparr>"
    by code_simp
  have rest: "results_loop (\<lambda>s. s) \<lparr>clusterColumnWidth = 7\<rparr> True [?test] \<lparr>out = [], headerPrinted = True\<rparr> =
      \<lparr>out = ''test      db 0/1\<newline>'', headerPrinted = True\<rparr>"
    by code_simp
  have e: "Error ?prod = Some (Errorf ''boom\<newline>'')"
    by simp
  have "MergeResults (\<lambda>s. s) ([?dev] @ ?prod # [?test]) True =
     ''CLUSTER   NAME READY\<newline>dev       web 1/1\<newline>''
     @ ''# Error from cluster '' @ Context ?prod @ '': '' @ error_text (Errorf ''boom\<newline>'') @ nl
     @ ''test      db 0/1\<newline>''"
    using MergeResults_error_line [OF e, of "\<lambda>s. s" "[?dev]" "[?test]" True]
    unfolding m Let_def seen merging.select_convs rest by (rule conjunct1)
  then show ?thesis
    by (simp add: nl_def newline_def)
qed

text \<open>
  The claim as the spec words it fails on a result that \<open>executeOne\<close> builds: a
  subprocess ends with status 1 after writing \<open>boom\<close> and a line feed to its standard
  error, the error keeps the line feed, and the merge prints two lines for the target,
  the second one empty.
\<close>

theorem MergeResults_error_two_lines:
  "MergeResults (\<lambda>s. s)
     [executeOne \<lparr>kubeConfigPath = [], timeout = 30\<rparr>
        (\<lambda>duration name cmdArgs.
           \<lparr>stdout = [], stderr = ''boom\<newline>'', err = Some (ExitError 1 ''exit status 1'')\<rparr>)
        ''dev'' [''get'', ''pods'']] True =
   ''# Error from cluster dev: boom\<newline>\<newline>'' \<and>
   Split (TrimSuffix ''# Error from cluster dev: boom\<newline>\<newline>'' nl) newline =
     [''# Error from cluster dev: boom'', []] \<and>
   count_list ''# Error from cluster dev: boom\<newline>\<newline>'' newline = 2"
  by code_simp

subsection \<open>The grouped merge, claim by claim\<close>

text \<open>
  Claim C4, as the program has it. \<open>MergeNonTableOutput\<close> is the concatenation of one
  block per result, in order. The block of a result without error is the delimiter line,
  the output, a line feed when the output does not end with one, and one more line feed:
  the blank separator line. The block of a result with an error is the delimiter line
  with the error alone; no blank line follows it.
\<close>

theorem MergeNonTableOutput_blocks:
  "MergeNonTableOutput results =
     concat (map (\<lambda>r. case Error r of
         Some e \<Rightarrow> ''=== Cluster: '' @ Context r @ '' (Error: '' @ error_text e @ '') ==='' @ nl
       | None \<Rightarrow> ''=== Cluster: '' @ Context r @ '' ==='' @ nl @ Output r
                 @ (if HasSuffix (Output r) nl then [] else nl) @ nl) results)"
  by (simp add: MergeNonTableOutput_def nonTable_loop_eq)

theorem MergeNonTableOutput_blocks_witness:
  "MergeNonTableOutput
     [\<lparr>Context = ''A'', Output = ''abc'', Error = None, ExitCode = 0\<rparr>,
      \<lparr>Context = ''B'', Output = [], Error = Some (Errorf ''boom''), ExitCode = 1\<rparr>,
      \<lparr>Context = ''C'', Output = ''x\<newline>'', Error = None, ExitCode = 0\<rparr>] =
   ''=== Cluster: A ===\<newline>abc\<newline>\<newline>=== Cluster: B (Error: boom) ===\<newline>=== Cluster: C ===\<newline>x\<newline>\<newline>''"
  using MergeNonTableOutput_blocks [of
     "[\<lparr>Context = ''A'', Output = ''abc'', Error = None, ExitCode = 0\<rparr>,
       \<lparr>Context = ''B'', Output = [], Error = Some (Errorf ''boom''), ExitCode = 1\<rparr>,
       \<lparr>Context = ''C'', Output = ''x\<newline>'', Error = None, ExitCode = 0\<rparr>]"]
  by (simp add: HasSuffix_def nl_def newline_def)

text \<open>
  The claim as the spec words it fails on its own example: after the delimiter line of
  the failed target \<open>B\<close> the output ends, with one line feed and not two.
\<close>

theorem MergeNonTableOutput_no_separator_after_error:
  "MergeNonTableOutput
     [\<lparr>Context = ''A'', Output = ''abc'', Error = None, ExitCode = 0\<rparr>,
      \<lparr>Context = ''B'', Output = [], Error = Some (Errorf ''boom''), ExitCode = 1\<rparr>] =
   ''=== Cluster: A ===\<newline>abc\<newline>\<newline>=== Cluster: B (Error: boom) ===\<newline>'' \<and>
   MergeNonTableOutput
     [\<lparr>Context = ''A'', Output = ''abc'', Error = None, ExitCode = 0\<rparr>,
      \<lparr>Context = ''B'', Output = [], Error = Some (Errorf ''boom''), ExitCode = 1\<rparr>] \<noteq>
   ''=== Cluster: A ===\<newline>abc\<newline>\<newline>=== Cluster: B (Error: boom) ===\<newline>\<newline>''"
  by code_simp

end
